theory Spec2Isabelle
  imports Main
begin

section \<open>Python string helpers used by app.py\<close>

text \<open>
  Strings are lists of 8-bit characters. \<open>str.strip()\<close> without an argument removes
  leading and trailing whitespace; on code points below 256 Python's \<open>str.isspace\<close> is
  true for TAB..CR (9..13), FS..US (28..31), SPACE (32), NEL (133) and NBSP (160).
\<close>

definition py_isspace :: "char \<Rightarrow> bool" where
  "py_isspace c =
     (let n = (of_char c :: nat)
      in (9 \<le> n \<and> n \<le> 13) \<or> (28 \<le> n \<and> n \<le> 32) \<or> n = 133 \<or> n = 160)"

definition py_strip :: "string \<Rightarrow> string" where
  "py_strip s = rev (dropWhile py_isspace (rev (dropWhile py_isspace s)))"

text \<open>\<open>bool(s)\<close> of a Python string: true exactly when the string is not empty.\<close>

definition py_bool_str :: "string \<Rightarrow> bool" where
  "py_bool_str s = (s \<noteq> [])"

section \<open>class Config\<close>

record Config =
  api_url :: string
  api_token :: string

text \<open>\<open>Config.__init__(url=None, token=None)\<close>: \<open>url or ""\<close>, \<open>token or ""\<close>.\<close>

definition py_or_empty :: "string option \<Rightarrow> string" where
  "py_or_empty v = (case v of None \<Rightarrow> [] | Some s \<Rightarrow> (if py_bool_str s then s else []))"

definition Config_init :: "string option \<Rightarrow> string option \<Rightarrow> Config" where
  "Config_init url token = \<lparr>api_url = py_or_empty url, api_token = py_or_empty token\<rparr>"

text \<open>\<open>Config.is_valid\<close>:
  \<open>return bool(self.api_url.strip()) and bool(self.api_token.strip())\<close>.\<close>

definition is_valid :: "'a Config_scheme \<Rightarrow> bool" where
  "is_valid c = (py_bool_str (py_strip (api_url c)) \<and> py_bool_str (py_strip (api_token c)))"

section \<open>Properties of Config.is_valid\<close>

lemma py_strip_nonempty_iff:
  "py_bool_str (py_strip s) \<longleftrightarrow> (\<exists>ch \<in> set s. \<not> py_isspace ch)"
proof -
  have "py_strip s \<noteq> [] \<longleftrightarrow> dropWhile py_isspace (rev (dropWhile py_isspace s)) \<noteq> []"
    by (simp add: py_strip_def)
  also have "\<dots> \<longleftrightarrow> (\<exists>ch \<in> set (dropWhile py_isspace s). \<not> py_isspace ch)"
    by (simp add: dropWhile_eq_Nil_conv)
  also have "\<dots> \<longleftrightarrow> (\<exists>ch \<in> set s. \<not> py_isspace ch)"
  proof
    assume "\<exists>ch \<in> set (dropWhile py_isspace s). \<not> py_isspace ch"
    then show "\<exists>ch \<in> set s. \<not> py_isspace ch"
      using set_dropWhileD by fastforce
  next
    assume "\<exists>ch \<in> set s. \<not> py_isspace ch"
    then have ne: "dropWhile py_isspace s \<noteq> []"
      by (simp add: dropWhile_eq_Nil_conv)
    then have "\<not> py_isspace (hd (dropWhile py_isspace s))"
      by (rule hd_dropWhile)
    moreover have "hd (dropWhile py_isspace s) \<in> set (dropWhile py_isspace s)"
      using ne by simp
    ultimately show "\<exists>ch \<in> set (dropWhile py_isspace s). \<not> py_isspace ch"
      by blast
  qed
  finally show ?thesis by (simp add: py_bool_str_def)
qed

text \<open>
  Claim C10. \<open>Config.is_valid\<close> is true exactly when the URL and the token each hold at
  least one character that is not whitespace; a URL or token made of whitespace only is
  rejected like an empty one; and two configurations (whatever else the objects carry)
  with the same URL and token get the same verdict.
\<close>

theorem is_valid_iff_non_whitespace:
  fixes c :: "'a Config_scheme" and c' :: "'b Config_scheme"
  shows "(is_valid c \<longleftrightarrow>
            (\<exists>ch \<in> set (api_url c). \<not> py_isspace ch) \<and>
            (\<exists>ch \<in> set (api_token c). \<not> py_isspace ch))
       \<and> ((\<forall>ch \<in> set (api_url c). py_isspace ch) \<longrightarrow> \<not> is_valid c)
       \<and> ((\<forall>ch \<in> set (api_token c). py_isspace ch) \<longrightarrow> \<not> is_valid c)
       \<and> (api_url c' = api_url c \<and> api_token c' = api_token c
            \<longrightarrow> is_valid c' = is_valid c)"
  by (auto simp: is_valid_def py_strip_nonempty_iff)

theorem is_valid_iff_non_whitespace_witness:
  "is_valid \<lparr>api_url = ''http://h/api'', api_token = '' t0k ''\<rparr>
   \<and> \<not> is_valid \<lparr>api_url = ''http://h/api'', api_token = [CHR 0x20, CHR 0x09]\<rparr>
   \<and> \<not> is_valid \<lparr>api_url = [CHR 0x0A], api_token = ''t0k''\<rparr>
   \<and> \<not> is_valid \<lparr>api_url = [], api_token = ''t0k''\<rparr>"
  using is_valid_iff_non_whitespace
          [of "\<lparr>api_url = ''http://h/api'', api_token = '' t0k ''\<rparr>"
              "\<lparr>api_url = ''http://h/api'', api_token = '' t0k ''\<rparr>"]
        is_valid_iff_non_whitespace
          [of "\<lparr>api_url = ''http://h/api'', api_token = [CHR 0x20, CHR 0x09]\<rparr>"
              "\<lparr>api_url = ''http://h/api'', api_token = [CHR 0x20, CHR 0x09]\<rparr>"]
        is_valid_iff_non_whitespace
          [of "\<lparr>api_url = [CHR 0x0A], api_token = ''t0k''\<rparr>"
              "\<lparr>api_url = [CHR 0x0A], api_token = ''t0k''\<rparr>"]
        is_valid_iff_non_whitespace
          [of "\<lparr>api_url = [], api_token = ''t0k''\<rparr>"
              "\<lparr>api_url = [], api_token = ''t0k''\<rparr>"]
  by (simp add: py_isspace_def)

end
